theory Spec2Isabelle
  imports Main
begin

section \<open>The application facade of \<^verbatim>\<open>fastapi/applications.py\<close>\<close>

subsection \<open>ASGI applications and middleware descriptors\<close>

text \<open>
  A \<^verbatim>\<open>Middleware(cls, **options)\<close> descriptor holds a middleware class and its keyword
  options.  A class is known by its name, the option bag is a list of key/value pairs.
\<close>

record Middleware =
  cls :: string
  options :: "(string \<times> string) list"

text \<open>
  The values of \<^verbatim>\<open>ASGIApp\<close> that the facade builds: \<open>RouterApp\<close> is the object
  \<^verbatim>\<open>self.router\<close> (held by reference), and \<open>MiddlewareApp c app opts\<close> is the
  instance made by the call \<^verbatim>\<open>c(app, **opts)\<close>.
\<close>

datatype ASGIApp =
  RouterApp
| MiddlewareApp string ASGIApp "(string \<times> string) list"

subsection \<open>Routes and the router\<close>

text \<open>
  Modelled from the spec: \<^verbatim>\<open>fastapi.routing\<close> and the Starlette route classes are not
  among the sources.  Section 3 of the specification describes a route entry as an
  endpoint (path template, allowed verbs, handler, inclusion-in-schema flag), a WebSocket
  endpoint (no verbs), or a mount of a sub-registry or of an opaque sub-application under
  a path prefix.
\<close>

datatype BaseRoute =
  Endpoint string "string list" string bool
| WebSocketRoute string string
| Mount string "BaseRoute list"
| MountApp string string

text \<open>
  Modelled from the spec: the class \<^verbatim>\<open>APIRouter\<close> is not among the sources.  The route
  registry is an ordered sequence of route entries; the field \<open>router_routes\<close> is the
  attribute \<^verbatim>\<open>routes\<close> of the router.
\<close>

record APIRouter =
  router_routes :: "BaseRoute list"

text \<open>
  Modelled from the spec: \<^verbatim>\<open>APIRouter.add_route\<close>, section 4.1 \<^verbatim>\<open>register(entry)\<close>:
  appends the entry to the ordered sequence and never fails.  With no verbs given the
  endpoint answers \<^verbatim>\<open>GET\<close> (section 6 lists the documentation endpoints, which are
  registered without verbs, as \<^verbatim>\<open>GET\<close>).
\<close>

definition router_add_route ::
  "APIRouter \<Rightarrow> string \<Rightarrow> string \<Rightarrow> string list option \<Rightarrow> string option \<Rightarrow> bool \<Rightarrow> APIRouter" where
  "router_add_route r path route methods name include_in_schema =
     r\<lparr>router_routes := router_routes r @
        [Endpoint path (case methods of None \<Rightarrow> [''GET''] | Some ms \<Rightarrow> ms) route include_in_schema]\<rparr>"

text \<open>Modelled from the spec: \<^verbatim>\<open>APIRouter.add_websocket_route\<close>, section 4.1, an append.\<close>

definition router_add_websocket_route ::
  "APIRouter \<Rightarrow> string \<Rightarrow> string \<Rightarrow> string option \<Rightarrow> APIRouter" where
  "router_add_websocket_route r path route name =
     r\<lparr>router_routes := router_routes r @ [WebSocketRoute path route]\<rparr>"

text \<open>
  Modelled from the spec: \<^verbatim>\<open>APIRouter.include_router\<close>, sections 4.1 and 4.6: the
  sub-registry is mounted under the prefix.
\<close>

definition router_include_router :: "APIRouter \<Rightarrow> APIRouter \<Rightarrow> string \<Rightarrow> APIRouter" where
  "router_include_router r sub prefix =
     r\<lparr>router_routes := router_routes r @ [Mount prefix (router_routes sub)]\<rparr>"

text \<open>
  Modelled from the spec: \<^verbatim>\<open>APIRouter.mount\<close>, section 4.6: an opaque sub-application
  registered as a mount.
\<close>

definition router_mount :: "APIRouter \<Rightarrow> string \<Rightarrow> string \<Rightarrow> string option \<Rightarrow> APIRouter" where
  "router_mount r path app name = r\<lparr>router_routes := router_routes r @ [MountApp path app]\<rparr>"

subsection \<open>JSON values, responses, the schema generator\<close>

datatype json =
  JStr string
| JList "json list"
| JDict "(string \<times> json) list"

text \<open>A Python \<^verbatim>\<open>dict\<close> with string keys, in insertion order.\<close>

type_synonym pydict = "(string \<times> json) list"

fun dict_set :: "pydict \<Rightarrow> string \<Rightarrow> json \<Rightarrow> pydict" where
  "dict_set [] k v = [(k, v)]"
| "dict_set ((k', v') # d) k v = (if k' = k then (k, v) # d else (k', v') # dict_set d k v)"

text \<open>The truth value of a \<^verbatim>\<open>dict\<close> in a condition: it is true when it has an entry.\<close>

definition dict_truthy :: "pydict \<Rightarrow> bool" where
  "dict_truthy d = (d \<noteq> [])"

type_synonym SchemaDocument = pydict

datatype Response =
  JSONResponse json int
| HTMLResponse string

type_synonym Request = "string \<times> string"

text \<open>
  Modelled from the spec: \<^verbatim>\<open>fastapi.openapi.utils.get_openapi\<close> is not among the
  sources.  Section 4.4: the walk traverses the registry; each endpoint whose inclusion
  flag is set emits one operation per allowed verb under its effective path, the prefixes
  of the enclosing mounts joined in front; a mount is walked with the prefix extended; an
  opaque sub-application is skipped.
\<close>

fun operations :: "string \<Rightarrow> BaseRoute \<Rightarrow> (string \<times> string \<times> string) list" where
  "operations pre (Endpoint path methods route include_in_schema) =
     (if include_in_schema then map (\<lambda>verb. (pre @ path, verb, route)) methods else [])"
| "operations pre (WebSocketRoute path route) = []"
| "operations pre (Mount prefix rs) = concat (map (operations (pre @ prefix)) rs)"
| "operations pre (MountApp prefix app) = []"

definition path_item :: "pydict \<Rightarrow> string \<Rightarrow> pydict" where
  "path_item paths p = (case map_of paths p of Some (JDict item) \<Rightarrow> item | _ \<Rightarrow> [])"

definition add_operation :: "pydict \<Rightarrow> string \<times> string \<times> string \<Rightarrow> pydict" where
  "add_operation paths op =
     (case op of (p, verb, route) \<Rightarrow>
        dict_set paths p (JDict (dict_set (path_item paths p) verb (JStr route))))"

text \<open>
  Modelled from the spec: \<^verbatim>\<open>get_openapi\<close>, sections 4.4 and 6: the document carries the
  \<^verbatim>\<open>info\<close> section assembled from the metadata and the \<^verbatim>\<open>paths\<close> section of the walk.
  The sections for tags, servers, contact, license and webhooks are left out: no property
  below reads them.
\<close>

definition get_openapi :: "string \<Rightarrow> string \<Rightarrow> string \<Rightarrow> BaseRoute list \<Rightarrow> SchemaDocument" where
  "get_openapi title version description rs =
     [(''info'', JDict [(''title'', JStr title), (''version'', JStr version),
                       (''description'', JStr description)]),
      (''paths'', JDict (foldl add_operation [] (concat (map (operations []) rs))))]"

subsection \<open>The exception table\<close>

text \<open>
  A key of \<^verbatim>\<open>exception_handlers\<close> is an integer status code or an exception class; a
  handler is one of the two bound methods of the facade or a callable of the caller's.
\<close>

datatype exc_class =
  StarletteHTTPException
| RequestValidationError
| ExceptionClass string

datatype exc_key =
  StatusCode int
| ExcClass exc_class

datatype handler =
  Self_http_exception
| Self_request_validation_exception
| Handler string

record HTTPException =
  status_code :: int
  detail :: string

record ValidationError =
  errors :: "json list"

text \<open>
  Modelled from the spec: \<^verbatim>\<open>fastapi.exception_handlers\<close> is not among the sources.
  Section 4.3: the handler of an HTTP-level failure serializes \<^verbatim>\<open>{detail: ...}\<close> as a
  JSON body with the given status; the handler of a validation failure serializes the
  list of per-field error descriptors with status 422.
\<close>

definition http_exception_handler :: "Request \<Rightarrow> HTTPException \<Rightarrow> Response" where
  "http_exception_handler request exc =
     JSONResponse (JDict [(''detail'', JStr (detail exc))]) (status_code exc)"

definition request_validation_exception_handler :: "Request \<Rightarrow> ValidationError \<Rightarrow> Response" where
  "request_validation_exception_handler request exc =
     JSONResponse (JDict [(''detail'', JList (errors exc))]) 422"

subsection \<open>The class \<^verbatim>\<open>FastAPI\<close>\<close>

record FastAPI =
  router :: APIRouter
  title :: string
  description :: string
  version :: string
  openapi_url :: "string option"
  root_path :: string
  user_middleware :: "Middleware list"
  middleware_stack :: ASGIApp
  exception_handlers :: "exc_key \<rightharpoonup> handler"
  routes :: "BaseRoute list"
  openapi_schema :: "SchemaDocument option"
  docs_url :: "string option"
  redoc_url :: "string option"
  swagger_ui_oauth2_redirect_url :: "string option"

text \<open>
  \<^verbatim>\<open>build_middleware_stack\<close>: the loop \<^verbatim>\<open>for middleware in reversed(...)\<close> is
  \<open>build_loop\<close> run on the reversed list, the accumulator being the variable \<^verbatim>\<open>app\<close>.
\<close>

fun build_loop :: "Middleware list \<Rightarrow> ASGIApp \<Rightarrow> ASGIApp" where
  "build_loop [] app = app"
| "build_loop (middleware # rest) app =
     build_loop rest (MiddlewareApp (cls middleware) app (options middleware))"

definition build_middleware_stack :: "FastAPI \<Rightarrow> ASGIApp" where
  "build_middleware_stack self = build_loop (rev (user_middleware self)) RouterApp"

text \<open>
  The reference of section 4.2, in the specification's words: start with
  \<^verbatim>\<open>current = terminalHandler\<close>, go through the middleware list in reverse declaration
  order, set \<^verbatim>\<open>current = descriptor.implementation(current, descriptor.options)\<close> for
  each descriptor, return the last \<^verbatim>\<open>current\<close>.
\<close>

definition spec_build :: "Middleware list \<Rightarrow> ASGIApp \<Rightarrow> ASGIApp" where
  "spec_build middlewareList terminalHandler =
     foldl (\<lambda>current descriptor. MiddlewareApp (cls descriptor) current (options descriptor))
       terminalHandler (rev middlewareList)"

definition add_exception_handler :: "FastAPI \<Rightarrow> exc_key \<Rightarrow> handler \<Rightarrow> FastAPI" where
  "add_exception_handler self exc_class_or_status_code h =
     (case exc_class_or_status_code of
        StatusCode n \<Rightarrow>
          self\<lparr>exception_handlers := (exception_handlers self)(exc_class_or_status_code \<mapsto> h)\<rparr>
      | ExcClass c \<Rightarrow>
          self\<lparr>exception_handlers := (exception_handlers self)(exc_class_or_status_code \<mapsto> h)\<rparr>)"

text \<open>The method \<^verbatim>\<open>setup\<close> (the name is a keyword of the theory language).\<close>

definition setup_app :: "FastAPI \<Rightarrow> FastAPI" where
  "setup_app self =
     add_exception_handler
       (add_exception_handler self (ExcClass StarletteHTTPException) Self_http_exception)
       (ExcClass RequestValidationError) Self_request_validation_exception"

definition http_exception :: "FastAPI \<Rightarrow> Request \<Rightarrow> HTTPException \<Rightarrow> Response" where
  "http_exception self request exc = http_exception_handler request exc"

definition request_validation_exception :: "FastAPI \<Rightarrow> Request \<Rightarrow> ValidationError \<Rightarrow> Response" where
  "request_validation_exception self request exc = request_validation_exception_handler request exc"

text \<open>
  \<^verbatim>\<open>openapi\<close> returns the response and the facade as the call leaves it.  The test
  \<^verbatim>\<open>if self.openapi_schema\<close> is false for \<^verbatim>\<open>None\<close> and for an empty \<^verbatim>\<open>dict\<close>.
\<close>

definition openapi :: "FastAPI \<Rightarrow> Request \<Rightarrow> Response \<times> FastAPI" where
  "openapi self request =
     (if (case openapi_schema self of None \<Rightarrow> False | Some d \<Rightarrow> dict_truthy d)
      then (JSONResponse (JDict (the (openapi_schema self))) 200, self)
      else (let self' = self\<lparr>openapi_schema :=
                          Some (get_openapi (title self) (version self) (description self) (routes self))\<rparr>
            in (JSONResponse (JDict (the (openapi_schema self'))) 200, self')))"

definition include_router :: "FastAPI \<Rightarrow> APIRouter \<Rightarrow> string \<Rightarrow> FastAPI" where
  "include_router self sub prefix = self\<lparr>router := router_include_router (router self) sub prefix\<rparr>"

definition add_route ::
  "FastAPI \<Rightarrow> string \<Rightarrow> string \<Rightarrow> string list option \<Rightarrow> string option \<Rightarrow> bool \<Rightarrow> FastAPI" where
  "add_route self path route methods name include_in_schema =
     self\<lparr>router := router_add_route (router self) path route methods name include_in_schema\<rparr>"

definition add_websocket_route :: "FastAPI \<Rightarrow> string \<Rightarrow> string \<Rightarrow> string option \<Rightarrow> FastAPI" where
  "add_websocket_route self path route name =
     self\<lparr>router := router_add_websocket_route (router self) path route name\<rparr>"

definition add_middleware :: "FastAPI \<Rightarrow> string \<Rightarrow> (string \<times> string) list \<Rightarrow> FastAPI" where
  "add_middleware self middleware_class opts =
     (let self' = self\<lparr>user_middleware :=
                    \<lparr>cls = middleware_class, options = opts\<rparr> # user_middleware self\<rparr>
      in self'\<lparr>middleware_stack := build_middleware_stack self'\<rparr>)"

definition mount :: "FastAPI \<Rightarrow> string \<Rightarrow> string \<Rightarrow> string option \<Rightarrow> FastAPI" where
  "mount self path app name = self\<lparr>router := router_mount (router self) path app name\<rparr>"

subsection \<open>Handling a request\<close>

text \<open>
  Middleware classes come from the caller and from Starlette.  The glossary of the
  specification takes a middleware to be a wrapper: it acts on the request, hands it to
  the application it wraps, and acts on the response.  The trace of one request through
  an application lists these actions in the order in which they happen; the router
  contributes the dispatch.
\<close>

datatype event =
  Enter string
| Dispatch
| Exit string

fun run :: "ASGIApp \<Rightarrow> event list" where
  "run RouterApp = [Dispatch]"
| "run (MiddlewareApp c app opts) = Enter c # run app @ [Exit c]"

text \<open>\<^verbatim>\<open>__call__\<close> hands the event to \<^verbatim>\<open>self.middleware_stack\<close>.\<close>

definition call :: "FastAPI \<Rightarrow> event list" where
  "call self = run (middleware_stack self)"

text \<open>
  The outermost wrapper of a stack is the one whose instance the stack is; the innermost
  wrapper is the one that wraps the router itself.
\<close>

fun outermost :: "ASGIApp \<Rightarrow> Middleware option" where
  "outermost RouterApp = None"
| "outermost (MiddlewareApp c app opts) = Some \<lparr>cls = c, options = opts\<rparr>"

fun innermost :: "ASGIApp \<Rightarrow> Middleware option" where
  "innermost RouterApp = None"
| "innermost (MiddlewareApp c RouterApp opts) = Some \<lparr>cls = c, options = opts\<rparr>"
| "innermost (MiddlewareApp c app opts) = innermost app"

subsection \<open>The constructor\<close>

text \<open>The keyword arguments of \<^verbatim>\<open>__init__\<close> that the methods above read.\<close>

record Args =
  arg_routes :: "BaseRoute list option"
  arg_title :: string
  arg_description :: string
  arg_version :: string
  arg_openapi_url :: "string option"
  arg_docs_url :: "string option"
  arg_redoc_url :: "string option"
  arg_swagger_ui_oauth2_redirect_url :: "string option"
  arg_middleware :: "Middleware list option"
  arg_exception_handlers :: "(exc_key \<rightharpoonup> handler) option"
  arg_root_path :: string

text \<open>The defaults of the signature.\<close>

definition default_args :: Args where
  "default_args =
     \<lparr>arg_routes = None, arg_title = ''FastAPI'', arg_description = [],
      arg_version = ''0.1.0'', arg_openapi_url = Some ''/openapi.json'',
      arg_docs_url = Some ''/docs'', arg_redoc_url = Some ''/redoc'',
      arg_swagger_ui_oauth2_redirect_url = Some ''/docs/oauth2-redirect'',
      arg_middleware = None, arg_exception_handlers = None, arg_root_path = []\<rparr>"

text \<open>
  Modelled from the spec: the constructor of \<^verbatim>\<open>APIRouter\<close> is not among the sources; the
  registry starts with the routes it is given, with none when it is given \<^verbatim>\<open>None\<close>.
\<close>

definition new_router :: "BaseRoute list option \<Rightarrow> APIRouter" where
  "new_router rs = \<lparr>router_routes = (case rs of None \<Rightarrow> [] | Some l \<Rightarrow> l)\<rparr>"

text \<open>
  The assignments of \<^verbatim>\<open>__init__\<close> up to the call of the initialiser of the superclass.
  The record is made with every attribute at once: the stack is filled in by
  \<open>build_middleware_stack\<close> and the table by \<open>setup_app\<close>, in the order of the source,
  and neither reads an attribute that the source assigns after it.  The initialiser of
  \<^verbatim>\<open>Starlette\<close> belongs to a library outside the repository; it is handed the routes,
  the middleware list and the table that the attributes hold, and the attributes stay as
  assigned.
\<close>

definition init_attributes :: "Args \<Rightarrow> FastAPI" where
  "init_attributes args =
     (let self = \<lparr>router = new_router (arg_routes args),
                  title = arg_title args,
                  description = arg_description args,
                  version = arg_version args,
                  openapi_url = arg_openapi_url args,
                  root_path = arg_root_path args,
                  user_middleware = (case arg_middleware args of None \<Rightarrow> [] | Some ms \<Rightarrow> ms),
                  middleware_stack = RouterApp,
                  exception_handlers =
                    (case arg_exception_handlers args of None \<Rightarrow> Map.empty | Some t \<Rightarrow> t),
                  routes = [],
                  openapi_schema = None,
                  docs_url = arg_docs_url args,
                  redoc_url = arg_redoc_url args,
                  swagger_ui_oauth2_redirect_url = arg_swagger_ui_oauth2_redirect_url args\<rparr>;
          self = self\<lparr>middleware_stack := build_middleware_stack self\<rparr>;
          self = self\<lparr>routes := routes self @ router_routes (router self)\<rparr>;
          self = setup_app self
      in self\<lparr>openapi_schema := None\<rparr>)"

text \<open>
  A failed \<^verbatim>\<open>assert\<close> raises \<^verbatim>\<open>AssertionError\<close>; the value names the option whose
  message the source gives.  The result of a step is the error together with the object
  under construction as it stands at the raise, or the object as the step leaves it.
\<close>

datatype error = AssertionError string

type_synonym result = "(error \<times> FastAPI) + FastAPI"

definition startswith :: "string \<Rightarrow> string \<Rightarrow> bool" where
  "startswith s p = (take (length p) s = p)"

text \<open>
  The four blocks that register the documentation routes, in the order of the source.
  Each of the first three asserts that its URL starts with \<^verbatim>\<open>/\<close> and then adds the
  route.
\<close>

definition setup_openapi :: "FastAPI \<Rightarrow> result" where
  "setup_openapi self =
     (case openapi_url self of
        None \<Rightarrow> Inr self
      | Some u \<Rightarrow>
          if u = [] then Inr self
          else if startswith u ''/'' then Inr (add_route self u ''openapi'' None None False)
          else Inl (AssertionError ''openapi_url'', self))"

definition setup_docs :: "FastAPI \<Rightarrow> result" where
  "setup_docs self =
     (case docs_url self of
        None \<Rightarrow> Inr self
      | Some u \<Rightarrow>
          if u = [] then Inr self
          else if startswith u ''/'' then Inr (add_route self u ''docs'' None None False)
          else Inl (AssertionError ''docs_url'', self))"

definition setup_redoc :: "FastAPI \<Rightarrow> result" where
  "setup_redoc self =
     (case redoc_url self of
        None \<Rightarrow> Inr self
      | Some u \<Rightarrow>
          if u = [] then Inr self
          else if startswith u ''/'' then Inr (add_route self u ''redoc'' None None False)
          else Inl (AssertionError ''redoc_url'', self))"

text \<open>
  The \<^verbatim>\<open>assert\<close> of the fourth block, lines 218 to 220 of the source, opens two
  parentheses and closes one; as written it is not a statement.  Two readings close it
  with one character.  The first closes the call \<^verbatim>\<open>startswith("/")\<close>, so that the
  parenthesis on line 220 ends the condition and the message follows it:
  this is the assertion of the three blocks before, and
  \<open>setup_swagger_ui_oauth2_redirect\<close> and \<open>init\<close> are the block and the constructor under
  it.  The second closes the outer parenthesis after the message; it is
  \<open>setup_swagger_ui_oauth2_redirect_tuple\<close> and \<open>init_tuple\<close> further down.
\<close>

definition setup_swagger_ui_oauth2_redirect :: "FastAPI \<Rightarrow> result" where
  "setup_swagger_ui_oauth2_redirect self =
     (case swagger_ui_oauth2_redirect_url self of
        None \<Rightarrow> Inr self
      | Some u \<Rightarrow>
          if u = [] then Inr self
          else if startswith u ''/''
            then Inr (add_route self u ''swagger_ui_oauth2_redirect'' None None False)
          else Inl (AssertionError ''swagger_ui_oauth2_redirect_url'', self))"

definition and_then :: "result \<Rightarrow> (FastAPI \<Rightarrow> result) \<Rightarrow> result" where
  "and_then r step = (case r of Inl e \<Rightarrow> Inl e | Inr self \<Rightarrow> step self)"

definition init :: "Args \<Rightarrow> result" where
  "init args =
     and_then (and_then (and_then (setup_openapi (init_attributes args)) setup_docs) setup_redoc)
       setup_swagger_ui_oauth2_redirect"




text \<open>
  The public operations that change a facade after construction; \<open>apply_op\<close> runs one of
  them, \<open>apply_ops\<close> a sequence of them from left to right.
\<close>

datatype operation =
  IncludeRouter APIRouter string
| AddRoute string string "string list option" "string option" bool
| AddWebsocketRoute string string "string option"
| AddMiddleware string "(string \<times> string) list"
| AddExceptionHandler exc_key handler
| MountOp string string "string option"

fun apply_op :: "FastAPI \<Rightarrow> operation \<Rightarrow> FastAPI" where
  "apply_op self (IncludeRouter sub prefix) = include_router self sub prefix"
| "apply_op self (AddRoute path route methods name inc) = add_route self path route methods name inc"
| "apply_op self (AddWebsocketRoute path route name) = add_websocket_route self path route name"
| "apply_op self (AddMiddleware c opts) = add_middleware self c opts"
| "apply_op self (AddExceptionHandler k h) = add_exception_handler self k h"
| "apply_op self (MountOp path app name) = mount self path app name"

definition apply_ops :: "FastAPI \<Rightarrow> operation list \<Rightarrow> FastAPI" where
  "apply_ops self ops = foldl apply_op self ops"

subsection \<open>Vocabulary for the documentation URLs\<close>

text \<open>
  A documentation URL is malformed when it is configured (not \<^verbatim>\<open>None\<close>, not empty) and
  does not start with \<^verbatim>\<open>/\<close>.  \<open>doc_urls\<close> lists the four options in the order in which
  the constructor looks at them, each with its name and its handler.  \<open>first_malformed\<close> is
  the name of the first malformed one, and \<open>doc_routes\<close> are the routes of the options in
  front of it that are configured.
\<close>

definition malformed :: "string option \<Rightarrow> bool" where
  "malformed u = (case u of None \<Rightarrow> False | Some s \<Rightarrow> s \<noteq> [] \<and> \<not> startswith s ''/'')"

definition doc_urls :: "Args \<Rightarrow> (string \<times> string option \<times> string) list" where
  "doc_urls args =
     [(''openapi_url'', arg_openapi_url args, ''openapi''),
      (''docs_url'', arg_docs_url args, ''docs''),
      (''redoc_url'', arg_redoc_url args, ''redoc''),
      (''swagger_ui_oauth2_redirect_url'', arg_swagger_ui_oauth2_redirect_url args,
         ''swagger_ui_oauth2_redirect'')]"

fun first_malformed :: "(string \<times> string option \<times> string) list \<Rightarrow> string option" where
  "first_malformed [] = None"
| "first_malformed ((n, u, h) # rest) = (if malformed u then Some n else first_malformed rest)"

fun doc_routes :: "(string \<times> string option \<times> string) list \<Rightarrow> BaseRoute list" where
  "doc_routes [] = []"
| "doc_routes ((n, u, h) # rest) =
     (if malformed u then []
      else (case u of
              None \<Rightarrow> doc_routes rest
            | Some s \<Rightarrow> if s = [] then doc_routes rest
                       else Endpoint s [''GET''] h False # doc_routes rest))"

text \<open>
  \<open>with_routes s rs\<close> is the facade \<open>s\<close> with the routes \<open>rs\<close> appended to its router, and
  \<open>outcome\<close> is the result expected of the four blocks on the options \<open>l\<close>: the
  routes in front of the first malformed option are registered, and the assertion of that
  option fails.
\<close>

definition with_routes :: "FastAPI \<Rightarrow> BaseRoute list \<Rightarrow> FastAPI" where
  "with_routes s rs = s\<lparr>router := (router s)\<lparr>router_routes := router_routes (router s) @ rs\<rparr>\<rparr>"

definition outcome :: "(string \<times> string option \<times> string) list \<Rightarrow> FastAPI \<Rightarrow> result" where
  "outcome l s =
     (case first_malformed l of
        None \<Rightarrow> Inr (with_routes s (doc_routes l))
      | Some n \<Rightarrow> Inl (AssertionError n, with_routes s (doc_routes l)))"

section \<open>Properties\<close>

subsection \<open>The middleware stack\<close>

lemma build_loop_foldl:
  "build_loop ms app =
     foldl (\<lambda>current descriptor. MiddlewareApp (cls descriptor) current (options descriptor)) app ms"
  by (induction ms arbitrary: app) simp_all

lemma build_loop_snoc:
  "build_loop (ms @ [m]) app = MiddlewareApp (cls m) (build_loop ms app) (options m)"
  by (induction ms arbitrary: app) simp_all

lemma build_loop_rev_foldr:
  "build_loop (rev ms) app =
     foldr (\<lambda>descriptor inner. MiddlewareApp (cls descriptor) inner (options descriptor)) ms app"
  by (induction ms) (simp_all add: build_loop_snoc)

lemma init_attributes_default_middleware:
  "user_middleware (init_attributes default_args) = []"
  by (simp add: init_attributes_def default_args_def setup_app_def add_exception_handler_def Let_def)

text \<open>
  C1.  \<^verbatim>\<open>build_middleware_stack\<close> computes the fold of section 4.2: from the router as
  the first \<^verbatim>\<open>current\<close>, through the user middleware list in reverse declaration order,
  each descriptor's class applied to \<^verbatim>\<open>current\<close> and the descriptor's options.  The same
  holds of the loop from any terminal handler.  Read from the front of the list, the
  result nests the descriptors from the first one inwards.
\<close>

theorem build_middleware_stack_is_fold:
  "build_middleware_stack self = spec_build (user_middleware self) RouterApp \<and>
   (\<forall>terminalHandler. build_loop (rev (user_middleware self)) terminalHandler =
      spec_build (user_middleware self) terminalHandler) \<and>
   build_middleware_stack self =
     foldr (\<lambda>descriptor inner. MiddlewareApp (cls descriptor) inner (options descriptor))
       (user_middleware self) RouterApp"
  by (simp add: build_middleware_stack_def spec_build_def build_loop_foldl [symmetric]
      build_loop_rev_foldr)

text \<open>
  C10.  With an empty user middleware list \<^verbatim>\<open>build_middleware_stack\<close> returns the router
  itself: composing no middleware is the identity on the terminal handler.
\<close>

theorem build_middleware_stack_empty:
  "user_middleware self = [] \<Longrightarrow> build_middleware_stack self = RouterApp"
  by (simp add: build_middleware_stack_def)

theorem build_middleware_stack_empty_witness:
  "user_middleware (init_attributes default_args) = [] \<and>
   build_middleware_stack (init_attributes default_args) = RouterApp"
  using build_middleware_stack_empty [of "init_attributes default_args"]
    init_attributes_default_middleware by simp

lemma build_stack_Cons:
  "user_middleware self = m # ms \<Longrightarrow>
   build_middleware_stack self =
     MiddlewareApp (cls m) (build_loop (rev ms) RouterApp) (options m)"
  by (simp add: build_middleware_stack_def build_loop_snoc)

lemma innermost_wrap:
  "innermost (MiddlewareApp c app opts) =
     (case innermost app of None \<Rightarrow> Some \<lparr>cls = c, options = opts\<rparr> | Some m \<Rightarrow> Some m)"
  by (induction app arbitrary: c opts) (simp_all split: option.splits)

lemma innermost_build_loop_rev:
  "innermost (build_loop (rev ms) RouterApp) = (if ms = [] then None else Some (last ms))"
proof (induction ms)
  case Nil
  show ?case by simp
next
  case (Cons m ms)
  show ?case
    by (simp add: build_loop_snoc innermost_wrap Cons.IH)
qed

lemma innermost_build_stack:
  "innermost (build_middleware_stack s) =
     (if user_middleware s = [] then None else Some (last (user_middleware s)))"
  unfolding build_middleware_stack_def by (rule innermost_build_loop_rev)

lemma user_middleware_init_attributes:
  "user_middleware (init_attributes args) = (case arg_middleware args of None \<Rightarrow> [] | Some ms \<Rightarrow> ms)"
  by (simp add: init_attributes_def setup_app_def add_exception_handler_def Let_def)

lemma middleware_stack_init_attributes:
  "middleware_stack (init_attributes args) =
     build_loop (rev (case arg_middleware args of None \<Rightarrow> [] | Some ms \<Rightarrow> ms)) RouterApp"
  by (simp add: init_attributes_def setup_app_def add_exception_handler_def Let_def
      build_middleware_stack_def)

lemma add_middleware_user_middleware:
  "user_middleware (add_middleware self c opts) = \<lparr>cls = c, options = opts\<rparr> # user_middleware self"
  by (simp add: add_middleware_def Let_def)

lemma add_middleware_stack:
  "middleware_stack (add_middleware self c opts) = MiddlewareApp c (build_middleware_stack self) opts"
  by (simp add: add_middleware_def Let_def build_middleware_stack_def build_loop_snoc)

lemma add_middleware_rebuilt:
  "middleware_stack (add_middleware self c opts) = build_middleware_stack (add_middleware self c opts)"
  by (simp add: add_middleware_def Let_def build_middleware_stack_def)

lemma user_middleware_add_ops:
  "user_middleware (apply_ops self (map (\<lambda>m. AddMiddleware (cls m) (options m)) ms)) =
     rev ms @ user_middleware self"
  by (induction ms rule: rev_induct) (simp_all add: apply_ops_def add_middleware_user_middleware)

text \<open>
  C2, the claim as stated fails.  With the list \<open>[A, B]\<close> the middleware declared last is
  \<open>B\<close>, and the stack is \<open>A(B(router))\<close>: the outermost wrapper is \<open>A\<close>, a request
  enters \<open>A\<close> first and leaves \<open>A\<close> last.
\<close>

theorem last_declared_not_outermost:
  "outermost (build_middleware_stack (init_attributes
      (default_args\<lparr>arg_middleware := Some [\<lparr>cls = ''A'', options = []\<rparr>, \<lparr>cls = ''B'', options = []\<rparr>]\<rparr>)))
     \<noteq> Some (last (user_middleware (init_attributes
      (default_args\<lparr>arg_middleware := Some [\<lparr>cls = ''A'', options = []\<rparr>, \<lparr>cls = ''B'', options = []\<rparr>]\<rparr>)))) \<and>
   hd (run (build_middleware_stack (init_attributes
      (default_args\<lparr>arg_middleware := Some [\<lparr>cls = ''A'', options = []\<rparr>, \<lparr>cls = ''B'', options = []\<rparr>]\<rparr>))))
     \<noteq> Enter (cls (last (user_middleware (init_attributes
      (default_args\<lparr>arg_middleware := Some [\<lparr>cls = ''A'', options = []\<rparr>, \<lparr>cls = ''B'', options = []\<rparr>]\<rparr>))))) \<and>
   last (run (build_middleware_stack (init_attributes
      (default_args\<lparr>arg_middleware := Some [\<lparr>cls = ''A'', options = []\<rparr>, \<lparr>cls = ''B'', options = []\<rparr>]\<rparr>))))
     \<noteq> Exit (cls (last (user_middleware (init_attributes
      (default_args\<lparr>arg_middleware := Some [\<lparr>cls = ''A'', options = []\<rparr>, \<lparr>cls = ''B'', options = []\<rparr>]\<rparr>))))) \<and>
   run (build_middleware_stack (init_attributes
      (default_args\<lparr>arg_middleware := Some [\<lparr>cls = ''A'', options = []\<rparr>, \<lparr>cls = ''B'', options = []\<rparr>]\<rparr>)))
     = [Enter ''A'', Enter ''B'', Dispatch, Exit ''B'', Exit ''A'']"
  by (simp add: build_middleware_stack_def user_middleware_init_attributes default_args_def)

text \<open>
  C2 as amended.  The middleware declared first, the element at position 0 of the user
  middleware list, is the outermost wrapper of the stack that \<^verbatim>\<open>build_middleware_stack\<close>
  returns: a request enters it first and leaves it last.  The middleware declared last
  is the innermost wrapper, the one applied to the router.
\<close>

theorem first_declared_outermost:
  assumes "user_middleware self = m # ms"
  shows "outermost (build_middleware_stack self) = Some m \<and>
         hd (run (build_middleware_stack self)) = Enter (cls m) \<and>
         last (run (build_middleware_stack self)) = Exit (cls m) \<and>
         innermost (build_middleware_stack self) = Some (last (m # ms)) \<and>
         build_middleware_stack self =
           MiddlewareApp (cls m) (build_middleware_stack (self\<lparr>user_middleware := ms\<rparr>)) (options m)"
proof -
  have s: "build_middleware_stack self =
      MiddlewareApp (cls m) (build_loop (rev ms) RouterApp) (options m)"
    using assms by (rule build_stack_Cons)
  have i: "innermost (build_middleware_stack self) = Some (last (m # ms))"
    unfolding s by (simp add: innermost_wrap innermost_build_loop_rev)
  have r: "build_middleware_stack (self\<lparr>user_middleware := ms\<rparr>) = build_loop (rev ms) RouterApp"
    by (simp add: build_middleware_stack_def)
  show ?thesis
    using i by (simp add: s r)
qed

theorem first_declared_outermost_witness:
  "user_middleware (init_attributes
      (default_args\<lparr>arg_middleware := Some [\<lparr>cls = ''A'', options = []\<rparr>, \<lparr>cls = ''B'', options = []\<rparr>]\<rparr>))
     = [\<lparr>cls = ''A'', options = []\<rparr>, \<lparr>cls = ''B'', options = []\<rparr>] \<and>
   outermost (build_middleware_stack (init_attributes
      (default_args\<lparr>arg_middleware := Some [\<lparr>cls = ''A'', options = []\<rparr>, \<lparr>cls = ''B'', options = []\<rparr>]\<rparr>)))
     = Some \<lparr>cls = ''A'', options = []\<rparr> \<and>
   innermost (build_middleware_stack (init_attributes
      (default_args\<lparr>arg_middleware := Some [\<lparr>cls = ''A'', options = []\<rparr>, \<lparr>cls = ''B'', options = []\<rparr>]\<rparr>)))
     = Some \<lparr>cls = ''B'', options = []\<rparr>"
proof -
  have h: "user_middleware (init_attributes
      (default_args\<lparr>arg_middleware := Some [\<lparr>cls = ''A'', options = []\<rparr>, \<lparr>cls = ''B'', options = []\<rparr>]\<rparr>))
     = \<lparr>cls = ''A'', options = []\<rparr> # [\<lparr>cls = ''B'', options = []\<rparr>]"
    by (simp add: user_middleware_init_attributes)
  note t = first_declared_outermost [OF h]
  have o: "outermost (build_middleware_stack (init_attributes
      (default_args\<lparr>arg_middleware := Some [\<lparr>cls = ''A'', options = []\<rparr>, \<lparr>cls = ''B'', options = []\<rparr>]\<rparr>)))
     = Some \<lparr>cls = ''A'', options = []\<rparr>"
    using t [THEN conjunct1] .
  have i: "innermost (build_middleware_stack (init_attributes
      (default_args\<lparr>arg_middleware := Some [\<lparr>cls = ''A'', options = []\<rparr>, \<lparr>cls = ''B'', options = []\<rparr>]\<rparr>)))
     = Some \<lparr>cls = ''B'', options = []\<rparr>"
    using t [THEN conjunct2, THEN conjunct2, THEN conjunct2, THEN conjunct1] by simp
  show ?thesis
    using h o i by simp
qed

text \<open>
  C3, the claim as stated fails.  After \<^verbatim>\<open>add_middleware(A)\<close> and then
  \<^verbatim>\<open>add_middleware(B)\<close> on a facade without middleware the list is \<open>[B, A]\<close> and the
  stack is \<open>B(A(router))\<close>: the most recently added \<open>B\<close> is not the innermost wrapper,
  it is the outermost one.
\<close>

theorem most_recent_not_innermost:
  "innermost (middleware_stack
      (add_middleware (add_middleware (init_attributes default_args) ''A'' []) ''B'' []))
     \<noteq> Some \<lparr>cls = ''B'', options = []\<rparr> \<and>
   innermost (middleware_stack
      (add_middleware (add_middleware (init_attributes default_args) ''A'' []) ''B'' []))
     = Some \<lparr>cls = ''A'', options = []\<rparr> \<and>
   outermost (middleware_stack
      (add_middleware (add_middleware (init_attributes default_args) ''A'' []) ''B'' []))
     = Some \<lparr>cls = ''B'', options = []\<rparr>"
  by (simp add: add_middleware_stack build_middleware_stack_def add_middleware_user_middleware
      user_middleware_init_attributes default_args_def)

text \<open>
  C3 as amended.  Every \<^verbatim>\<open>add_middleware\<close> call inserts the new descriptor at position 0
  of the user middleware list and rebuilds the whole stack from the new list; the
  descriptor it adds is the outermost wrapper of the new stack.  After a sequence of
  calls the list holds the added descriptors in reverse order of the calls in front of
  the earlier ones, the most recently added middleware is outermost, and the innermost
  wrapper is the last element of the list: the first one added when the facade had no
  middleware before.
\<close>

theorem add_middleware_most_recent_outermost:
  assumes "ms \<noteq> []"
  shows "user_middleware (add_middleware self c opts) = \<lparr>cls = c, options = opts\<rparr> # user_middleware self \<and>
         middleware_stack (add_middleware self c opts) = build_middleware_stack (add_middleware self c opts) \<and>
         outermost (middleware_stack (add_middleware self c opts)) = Some \<lparr>cls = c, options = opts\<rparr> \<and>
         user_middleware (apply_ops self (map (\<lambda>m. AddMiddleware (cls m) (options m)) ms)) =
           rev ms @ user_middleware self \<and>
         outermost (middleware_stack (apply_ops self (map (\<lambda>m. AddMiddleware (cls m) (options m)) ms))) =
           Some (last ms) \<and>
         innermost (middleware_stack (apply_ops self (map (\<lambda>m. AddMiddleware (cls m) (options m)) ms))) =
           Some (last (rev ms @ user_middleware self))"
proof -
  obtain xs x where ms: "ms = xs @ [x]"
    using assms by (metis rev_exhaust)
  let ?s = "apply_ops self (map (\<lambda>m. AddMiddleware (cls m) (options m)) xs)"
  have step: "apply_ops self (map (\<lambda>m. AddMiddleware (cls m) (options m)) ms) =
      add_middleware ?s (cls x) (options x)"
    by (simp add: ms apply_ops_def)
  have um: "user_middleware ?s = rev xs @ user_middleware self"
    by (rule user_middleware_add_ops)
  have inner: "innermost (middleware_stack (add_middleware ?s (cls x) (options x))) =
      Some (last (x # rev xs @ user_middleware self))"
    by (simp add: add_middleware_stack innermost_wrap innermost_build_stack um)
  show ?thesis
    using inner
    by (simp add: add_middleware_user_middleware add_middleware_rebuilt [symmetric]
        add_middleware_stack user_middleware_add_ops step)
      (simp add: ms)
qed

theorem add_middleware_most_recent_outermost_witness:
  "[\<lparr>cls = ''A'', options = []\<rparr>, \<lparr>cls = ''B'', options = []\<rparr>] \<noteq> [] \<and>
   user_middleware (apply_ops (init_attributes default_args)
      [AddMiddleware ''A'' [], AddMiddleware ''B'' []])
     = [\<lparr>cls = ''B'', options = []\<rparr>, \<lparr>cls = ''A'', options = []\<rparr>] \<and>
   outermost (middleware_stack (apply_ops (init_attributes default_args)
      [AddMiddleware ''A'' [], AddMiddleware ''B'' []]))
     = Some \<lparr>cls = ''B'', options = []\<rparr> \<and>
   innermost (middleware_stack (apply_ops (init_attributes default_args)
      [AddMiddleware ''A'' [], AddMiddleware ''B'' []]))
     = Some \<lparr>cls = ''A'', options = []\<rparr>"
proof -
  have h: "[\<lparr>cls = ''A'', options = []\<rparr>, \<lparr>cls = ''B'', options = []\<rparr>] \<noteq> []"
    by simp
  show ?thesis
    using add_middleware_most_recent_outermost [OF h, of "init_attributes default_args"]
    by (simp add: init_attributes_default_middleware)
qed

text \<open>
  C4.  Three middleware \<open>m1\<close>, \<open>m2\<close>, \<open>m3\<close> added by \<^verbatim>\<open>add_middleware\<close> calls in that
  order: a request enters \<open>m3\<close>, then \<open>m2\<close>, then \<open>m1\<close>, passes through the stack of the
  middleware the facade had before, and leaves \<open>m1\<close>, then \<open>m2\<close>, then \<open>m3\<close>.  On a facade
  that had no middleware before, \<open>m3\<close> is the first to see the request and \<open>m1\<close> the first
  to see the response.
\<close>

theorem three_middleware_order:
  assumes "user_middleware self = []"
  shows "call (add_middleware (add_middleware (add_middleware self c1 o1) c2 o2) c3 o3) =
           [Enter c3, Enter c2, Enter c1, Dispatch, Exit c1, Exit c2, Exit c3] \<and>
         (\<forall>other. call (add_middleware (add_middleware (add_middleware other c1 o1) c2 o2) c3 o3) =
           [Enter c3, Enter c2, Enter c1] @ run (build_middleware_stack other) @
           [Exit c1, Exit c2, Exit c3])"
proof -
  have g: "call (add_middleware (add_middleware (add_middleware other c1 o1) c2 o2) c3 o3) =
      [Enter c3, Enter c2, Enter c1] @ run (build_middleware_stack other) @
      [Exit c1, Exit c2, Exit c3]" for other
    by (simp add: call_def add_middleware_stack add_middleware_rebuilt [symmetric])
  have e: "run (build_middleware_stack self) = [Dispatch]"
    using assms by (simp add: build_middleware_stack_def)
  show ?thesis
    using g [of self] g by (simp add: e)
qed

theorem three_middleware_order_witness:
  "user_middleware (init_attributes default_args) = [] \<and>
   call (add_middleware (add_middleware (add_middleware (init_attributes default_args)
       ''M1'' []) ''M2'' []) ''M3'' []) =
     [Enter ''M3'', Enter ''M2'', Enter ''M1'', Dispatch, Exit ''M1'', Exit ''M2'', Exit ''M3'']"
  using three_middleware_order [OF init_attributes_default_middleware,
      of "''M1''" "[]" "''M2''" "[]" "''M3''" "[]", THEN conjunct1]
    init_attributes_default_middleware by simp

subsection \<open>The exception table\<close>

lemma exception_handlers_add:
  "exception_handlers (add_exception_handler self k h) = (exception_handlers self)(k \<mapsto> h)"
  by (cases k) (simp_all add: add_exception_handler_def)

lemma add_exception_handler_frame:
  "add_exception_handler self k h = self\<lparr>exception_handlers := (exception_handlers self)(k \<mapsto> h)\<rparr>"
  by (cases k) (simp_all add: add_exception_handler_def)

lemma dom_apply_op:
  "dom (exception_handlers self) \<subseteq> dom (exception_handlers (apply_op self x))"
  by (cases x)
    (auto simp: include_router_def add_route_def add_websocket_route_def add_middleware_def
      mount_def exception_handlers_add Let_def)

lemma dom_apply_ops:
  "dom (exception_handlers self) \<subseteq> dom (exception_handlers (apply_ops self ops))"
proof (induction ops rule: rev_induct)
  case Nil
  show ?case by (simp add: apply_ops_def)
next
  case (snoc x xs)
  have "apply_ops self (xs @ [x]) = apply_op (apply_ops self xs) x"
    by (simp add: apply_ops_def)
  then show ?case
    using snoc dom_apply_op [of "apply_ops self xs" x] by auto
qed

text \<open>
  C9.  For every key, a status code or an exception class, and every handler,
  \<^verbatim>\<open>add_exception_handler\<close> stores the handler under the key, in place of the handler
  the key had before.  No other entry of the table and no other attribute of the facade
  changes.  No sequence of the facade's operations removes a key from the table.
\<close>

theorem add_exception_handler_overwrites:
  "exception_handlers (add_exception_handler self k h) k = Some h \<and>
   (\<forall>k'. k' \<noteq> k \<longrightarrow>
      exception_handlers (add_exception_handler self k h) k' = exception_handlers self k') \<and>
   add_exception_handler self k h = self\<lparr>exception_handlers := (exception_handlers self)(k \<mapsto> h)\<rparr> \<and>
   (\<forall>ops. dom (exception_handlers self) \<subseteq> dom (exception_handlers (apply_ops self ops)))"
  using dom_apply_ops [of self] add_exception_handler_frame [of self k h]
  by (simp add: exception_handlers_add)

lemma exception_handlers_init_attributes:
  "exception_handlers (init_attributes args) =
     (case arg_exception_handlers args of None \<Rightarrow> Map.empty | Some t \<Rightarrow> t)
       (ExcClass StarletteHTTPException \<mapsto> Self_http_exception,
        ExcClass RequestValidationError \<mapsto> Self_request_validation_exception)"
  by (simp add: init_attributes_def setup_app_def exception_handlers_add Let_def)

theorem add_exception_handler_overwrites_witness:
  "exception_handlers (add_exception_handler
      (add_exception_handler (init_attributes default_args) (StatusCode 404) (Handler ''first''))
      (StatusCode 404) (Handler ''second'')) (StatusCode 404) = Some (Handler ''second'') \<and>
   exception_handlers (add_exception_handler
      (add_exception_handler (init_attributes default_args) (StatusCode 404) (Handler ''first''))
      (StatusCode 404) (Handler ''second'')) (ExcClass StarletteHTTPException) =
     Some Self_http_exception \<and>
   exception_handlers (add_exception_handler
      (add_exception_handler (init_attributes default_args) (StatusCode 404) (Handler ''first''))
      (StatusCode 404) (Handler ''second'')) (StatusCode 500) = None"
proof -
  let ?s = "add_exception_handler (init_attributes default_args) (StatusCode 404) (Handler ''first'')"
  note t = add_exception_handler_overwrites [of ?s "StatusCode 404" "Handler ''second''"]
  have a: "exception_handlers (add_exception_handler ?s (StatusCode 404) (Handler ''second''))
      (StatusCode 404) = Some (Handler ''second'')"
    using t [THEN conjunct1] .
  have o: "exception_handlers (add_exception_handler ?s (StatusCode 404) (Handler ''second'')) k' =
      exception_handlers ?s k'" if "k' \<noteq> StatusCode 404" for k'
    using t [THEN conjunct2, THEN conjunct1] that by blast
  have b: "exception_handlers ?s (ExcClass StarletteHTTPException) = Some Self_http_exception"
    by (simp add: exception_handlers_add exception_handlers_init_attributes)
  have c: "exception_handlers ?s (StatusCode 500) = None"
    by (simp add: exception_handlers_add exception_handlers_init_attributes default_args_def)
  show ?thesis
    using a o [of "ExcClass StarletteHTTPException"] o [of "StatusCode 500"] b c by simp
qed

lemma setup_openapi_handlers:
  "setup_openapi s = Inr s' \<Longrightarrow> exception_handlers s' = exception_handlers s"
  by (auto simp: setup_openapi_def add_route_def split: option.splits if_splits)

lemma setup_docs_handlers:
  "setup_docs s = Inr s' \<Longrightarrow> exception_handlers s' = exception_handlers s"
  by (auto simp: setup_docs_def add_route_def split: option.splits if_splits)

lemma setup_redoc_handlers:
  "setup_redoc s = Inr s' \<Longrightarrow> exception_handlers s' = exception_handlers s"
  by (auto simp: setup_redoc_def add_route_def split: option.splits if_splits)

lemma setup_swagger_handlers:
  "setup_swagger_ui_oauth2_redirect s = Inr s' \<Longrightarrow> exception_handlers s' = exception_handlers s"
  by (auto simp: setup_swagger_ui_oauth2_redirect_def add_route_def split: option.splits if_splits)

lemma and_then_Inr:
  "and_then r step = Inr s' \<Longrightarrow> \<exists>s. r = Inr s \<and> step s = Inr s'"
  by (cases r) (simp_all add: and_then_def)

lemma init_handlers:
  assumes "init args = Inr self"
  shows "exception_handlers self = exception_handlers (init_attributes args)"
proof -
  from assms obtain s3 where r3:
      "and_then (and_then (setup_openapi (init_attributes args)) setup_docs) setup_redoc = Inr s3"
    and e4: "setup_swagger_ui_oauth2_redirect s3 = Inr self"
    unfolding init_def by (blast dest: and_then_Inr)
  from r3 obtain s2 where r2: "and_then (setup_openapi (init_attributes args)) setup_docs = Inr s2"
    and e3: "setup_redoc s2 = Inr s3"
    by (blast dest: and_then_Inr)
  from r2 obtain s1 where e1: "setup_openapi (init_attributes args) = Inr s1"
    and e2: "setup_docs s1 = Inr s2"
    by (blast dest: and_then_Inr)
  show ?thesis
    using setup_openapi_handlers [OF e1] setup_docs_handlers [OF e2]
      setup_redoc_handlers [OF e3] setup_swagger_handlers [OF e4] by simp
qed

text \<open>
  C8.  A facade that the constructor returns has the table it was given with two entries
  written over it: the class of HTTP-level failures maps to the method
  \<^verbatim>\<open>http_exception\<close>, which answers with the JSON body \<^verbatim>\<open>{detail: ...}\<close> and the status
  of the exception, and the class of request validation failures maps to the method
  \<^verbatim>\<open>request_validation_exception\<close>, which answers with the list of error descriptors
  and status 422.  The keys of the table are those it was given and these two; \<^verbatim>\<open>setup\<close>
  writes these two entries and nothing else.
\<close>

theorem init_installs_default_handlers:
  assumes "init args = Inr self"
  shows "exception_handlers self =
           (case arg_exception_handlers args of None \<Rightarrow> Map.empty | Some t \<Rightarrow> t)
             (ExcClass StarletteHTTPException \<mapsto> Self_http_exception,
              ExcClass RequestValidationError \<mapsto> Self_request_validation_exception) \<and>
         dom (exception_handlers self) =
           dom (case arg_exception_handlers args of None \<Rightarrow> Map.empty | Some t \<Rightarrow> t) \<union>
           {ExcClass StarletteHTTPException, ExcClass RequestValidationError} \<and>
         (\<forall>other. exception_handlers (setup_app other) =
            (exception_handlers other)
              (ExcClass StarletteHTTPException \<mapsto> Self_http_exception,
               ExcClass RequestValidationError \<mapsto> Self_request_validation_exception)) \<and>
         (\<forall>request exc. http_exception self request exc =
            JSONResponse (JDict [(''detail'', JStr (detail exc))]) (status_code exc)) \<and>
         (\<forall>request exc. request_validation_exception self request exc =
            JSONResponse (JDict [(''detail'', JList (errors exc))]) 422)"
proof -
  have h: "exception_handlers self =
      (case arg_exception_handlers args of None \<Rightarrow> Map.empty | Some t \<Rightarrow> t)
        (ExcClass StarletteHTTPException \<mapsto> Self_http_exception,
         ExcClass RequestValidationError \<mapsto> Self_request_validation_exception)"
    using init_handlers [OF assms] by (simp add: exception_handlers_init_attributes)
  have d: "dom (exception_handlers self) =
      dom (case arg_exception_handlers args of None \<Rightarrow> Map.empty | Some t \<Rightarrow> t) \<union>
      {ExcClass StarletteHTTPException, ExcClass RequestValidationError}"
    unfolding h by auto
  show ?thesis
    using h d
    by (simp add: setup_app_def exception_handlers_add http_exception_def
        http_exception_handler_def request_validation_exception_def
        request_validation_exception_handler_def)
qed

subsection \<open>The constructor and the documentation routes\<close>

lemma init_attributes_urls:
  "openapi_url (init_attributes args) = arg_openapi_url args"
  "docs_url (init_attributes args) = arg_docs_url args"
  "redoc_url (init_attributes args) = arg_redoc_url args"
  "swagger_ui_oauth2_redirect_url (init_attributes args) = arg_swagger_ui_oauth2_redirect_url args"
  by (simp_all add: init_attributes_def setup_app_def add_exception_handler_frame Let_def)

lemma init_attributes_router:
  "router (init_attributes args) = new_router (arg_routes args)"
  by (simp add: init_attributes_def setup_app_def add_exception_handler_frame Let_def)

lemma init_attributes_routes:
  "routes (init_attributes args) = (case arg_routes args of None \<Rightarrow> [] | Some l \<Rightarrow> l)"
  by (simp add: init_attributes_def setup_app_def add_exception_handler_frame Let_def
      new_router_def)

lemma init_attributes_schema:
  "openapi_schema (init_attributes args) = None"
  by (simp add: init_attributes_def)

lemma init_attributes_info:
  "title (init_attributes args) = arg_title args"
  "version (init_attributes args) = arg_version args"
  "description (init_attributes args) = arg_description args"
  by (simp_all add: init_attributes_def setup_app_def add_exception_handler_frame Let_def)

lemma add_route_fields:
  "openapi_url (add_route s p r m n i) = openapi_url s"
  "docs_url (add_route s p r m n i) = docs_url s"
  "redoc_url (add_route s p r m n i) = redoc_url s"
  "swagger_ui_oauth2_redirect_url (add_route s p r m n i) = swagger_ui_oauth2_redirect_url s"
  "routes (add_route s p r m n i) = routes s"
  "openapi_schema (add_route s p r m n i) = openapi_schema s"
  "title (add_route s p r m n i) = title s"
  "version (add_route s p r m n i) = version s"
  "description (add_route s p r m n i) = description s"
  "exception_handlers (add_route s p r m n i) = exception_handlers s"
  "router_routes (router (add_route s p r m n i)) =
     router_routes (router s) @ [Endpoint p (case m of None \<Rightarrow> [''GET''] | Some ms \<Rightarrow> ms) r i]"
  by (simp_all add: add_route_def router_add_route_def)

lemma with_routes_Nil: "with_routes s [] = s"
  by (simp add: with_routes_def)

lemma with_routes_fields:
  "openapi_url (with_routes s rs) = openapi_url s"
  "docs_url (with_routes s rs) = docs_url s"
  "redoc_url (with_routes s rs) = redoc_url s"
  "swagger_ui_oauth2_redirect_url (with_routes s rs) = swagger_ui_oauth2_redirect_url s"
  "router_routes (router (with_routes s rs)) = router_routes (router s) @ rs"
  by (simp_all add: with_routes_def)

lemma add_route_with_routes:
  "add_route (with_routes s rs) p r None None False = with_routes s (rs @ [Endpoint p [''GET''] r False])"
  by (simp add: add_route_def router_add_route_def with_routes_def)

lemma init_outcome:
  "init args = outcome (doc_urls args) (init_attributes args)"
proof -
  let ?s = "init_attributes args"
  have s0: "?s = with_routes ?s []"
    by (simp add: with_routes_Nil)
  show ?thesis
    unfolding init_def
    apply (subst s0)
    apply (simp add: outcome_def doc_urls_def and_then_def setup_openapi_def setup_docs_def
        setup_redoc_def setup_swagger_ui_oauth2_redirect_def malformed_def
        with_routes_fields init_attributes_urls add_route_with_routes add_route_fields
        split: option.splits)
    done
qed

lemma first_malformed_default: "first_malformed (doc_urls default_args) = None"
  by (simp add: doc_urls_def default_args_def malformed_def startswith_def)

lemma init_default:
  "init default_args = Inr (with_routes (init_attributes default_args) (doc_routes (doc_urls default_args)))"
  by (simp add: init_outcome outcome_def first_malformed_default)

theorem init_installs_default_handlers_witness:
  "(case init default_args of
      Inl e \<Rightarrow> False
    | Inr self \<Rightarrow>
        exception_handlers self (ExcClass StarletteHTTPException) = Some Self_http_exception \<and>
        exception_handlers self (ExcClass RequestValidationError) =
          Some Self_request_validation_exception \<and>
        dom (exception_handlers self) =
          {ExcClass StarletteHTTPException, ExcClass RequestValidationError} \<and>
        http_exception self (''GET'', ''/teapot'') \<lparr>status_code = 418, detail = ''teapot''\<rparr> =
          JSONResponse (JDict [(''detail'', JStr ''teapot'')]) 418)"
proof -
  let ?s = "with_routes (init_attributes default_args) (doc_routes (doc_urls default_args))"
  note t = init_installs_default_handlers [OF init_default]
  have a: "exception_handlers ?s =
      Map.empty(ExcClass StarletteHTTPException \<mapsto> Self_http_exception,
        ExcClass RequestValidationError \<mapsto> Self_request_validation_exception)"
    using t [THEN conjunct1] by (simp add: default_args_def)
  have d: "dom (exception_handlers ?s) = {ExcClass StarletteHTTPException, ExcClass RequestValidationError}"
    using t [THEN conjunct2, THEN conjunct1] by (simp add: default_args_def)
  have h: "http_exception ?s (''GET'', ''/teapot'') \<lparr>status_code = 418, detail = ''teapot''\<rparr> =
      JSONResponse (JDict [(''detail'', JStr ''teapot'')]) 418"
    using t [THEN conjunct2, THEN conjunct2, THEN conjunct2, THEN conjunct1] by simp
  show ?thesis
    unfolding init_default using d h by (simp add: a)
qed








subsection \<open>The schema endpoint\<close>

lemma get_openapi_truthy: "dict_truthy (get_openapi t v d rs)"
  by (simp add: get_openapi_def dict_truthy_def)

lemma openapi_hit:
  "openapi_schema s = Some d \<Longrightarrow> dict_truthy d \<Longrightarrow> openapi s request = (JSONResponse (JDict d) 200, s)"
  by (simp add: openapi_def)

lemma openapi_miss:
  "openapi_schema s = None \<Longrightarrow>
   openapi s request =
     (JSONResponse (JDict (get_openapi (title s) (version s) (description s) (routes s))) 200,
      s\<lparr>openapi_schema := Some (get_openapi (title s) (version s) (description s) (routes s))\<rparr>)"
  by (simp add: openapi_def Let_def)

lemma openapi_stores:
  "\<exists>d. dict_truthy d \<and> openapi_schema (snd (openapi s request)) = Some d \<and>
       fst (openapi s request) = JSONResponse (JDict d) 200"
proof (cases "case openapi_schema s of None \<Rightarrow> False | Some d \<Rightarrow> dict_truthy d")
  case True
  then obtain d where "openapi_schema s = Some d" "dict_truthy d"
    by (auto split: option.splits)
  then show ?thesis
    by (simp add: openapi_hit)
next
  case False
  then show ?thesis
    by (simp add: openapi_def Let_def get_openapi_truthy)
qed

lemma openapi_schema_apply_op: "openapi_schema (apply_op s x) = openapi_schema s"
  by (cases x)
    (simp_all add: include_router_def add_route_def add_websocket_route_def add_middleware_def
      mount_def add_exception_handler_frame Let_def)

lemma openapi_schema_apply_ops: "openapi_schema (apply_ops s ops) = openapi_schema s"
  by (induction ops rule: rev_induct) (simp_all add: apply_ops_def openapi_schema_apply_op)

text \<open>
  C5.  The first call of \<^verbatim>\<open>openapi\<close> on a facade without a cached document computes the
  document and stores it.  Every later call, on any later state of the facade that still
  holds what the first call left in \<^verbatim>\<open>openapi_schema\<close>, answers with the same document
  and changes nothing; the operations of the facade (routes, routers, mounts, middleware,
  exception handlers) never touch \<^verbatim>\<open>openapi_schema\<close>, so this holds after any sequence of
  them, and it holds when the list of routes itself has been changed in between.
\<close>

theorem openapi_write_once:
  assumes "openapi_schema later = openapi_schema (snd (openapi self request))"
  shows "fst (openapi later request2) = fst (openapi self request) \<and>
         snd (openapi later request2) = later \<and>
         (\<forall>ops. fst (openapi (apply_ops (snd (openapi self request)) ops) request2) =
            fst (openapi self request)) \<and>
         (openapi_schema self = None \<longrightarrow>
            openapi self request =
              (JSONResponse
                 (JDict (get_openapi (title self) (version self) (description self) (routes self))) 200,
               self\<lparr>openapi_schema :=
                 Some (get_openapi (title self) (version self) (description self) (routes self))\<rparr>))"
proof -
  obtain d where d: "dict_truthy d" "openapi_schema (snd (openapi self request)) = Some d"
      "fst (openapi self request) = JSONResponse (JDict d) 200"
    using openapi_stores [of self request] by blast
  have l: "openapi later request2 = (JSONResponse (JDict d) 200, later)"
    using assms d by (simp add: openapi_hit)
  have o: "openapi (apply_ops (snd (openapi self request)) ops) request2 =
      (JSONResponse (JDict d) 200, apply_ops (snd (openapi self request)) ops)" for ops
    using d by (simp add: openapi_hit openapi_schema_apply_ops)
  show ?thesis
    using l o d(3) by (simp add: openapi_miss)
qed

lemma with_routes_keeps:
  "routes (with_routes s rs) = routes s"
  "openapi_schema (with_routes s rs) = openapi_schema s"
  "title (with_routes s rs) = title s"
  "version (with_routes s rs) = version s"
  "description (with_routes s rs) = description s"
  by (simp_all add: with_routes_def)

lemma default_schema:
  "get_openapi (title (init_attributes default_args)) (version (init_attributes default_args))
     (description (init_attributes default_args)) (routes (init_attributes default_args)) =
   [(''info'', JDict [(''title'', JStr ''FastAPI''), (''version'', JStr ''0.1.0''),
                      (''description'', JStr [])]),
    (''paths'', JDict [])]"
  by (simp add: init_attributes_info init_attributes_routes default_args_def get_openapi_def)

theorem openapi_write_once_witness:
  "openapi_schema
     ((snd (openapi (init_attributes default_args) (''GET'', ''/openapi.json'')))
        \<lparr>routes := [Endpoint ''/items'' [''GET''] ''read_items'' True]\<rparr>) =
   openapi_schema (snd (openapi (init_attributes default_args) (''GET'', ''/openapi.json''))) \<and>
   fst (openapi
     ((snd (openapi (init_attributes default_args) (''GET'', ''/openapi.json'')))
        \<lparr>routes := [Endpoint ''/items'' [''GET''] ''read_items'' True]\<rparr>)
     (''GET'', ''/openapi.json'')) =
   JSONResponse (JDict
       [(''info'', JDict [(''title'', JStr ''FastAPI''), (''version'', JStr ''0.1.0''),
                          (''description'', JStr [])]),
        (''paths'', JDict [])]) 200 \<and>
   get_openapi ''FastAPI'' ''0.1.0'' [] [Endpoint ''/items'' [''GET''] ''read_items'' True] =
     [(''info'', JDict [(''title'', JStr ''FastAPI''), (''version'', JStr ''0.1.0''),
                        (''description'', JStr [])]),
      (''paths'', JDict [(''/items'', JDict [(''GET'', JStr ''read_items'')])])]"
proof -
  let ?first = "openapi (init_attributes default_args) (''GET'', ''/openapi.json'')"
  let ?later = "(snd ?first)\<lparr>routes := [Endpoint ''/items'' [''GET''] ''read_items'' True]\<rparr>"
  have h: "openapi_schema ?later = openapi_schema (snd ?first)"
    by simp
  have f: "fst ?first = JSONResponse (JDict
       [(''info'', JDict [(''title'', JStr ''FastAPI''), (''version'', JStr ''0.1.0''),
                          (''description'', JStr [])]),
        (''paths'', JDict [])]) 200"
    by (simp add: openapi_miss init_attributes_schema default_schema)
  have g: "get_openapi ''FastAPI'' ''0.1.0'' [] [Endpoint ''/items'' [''GET''] ''read_items'' True] =
     [(''info'', JDict [(''title'', JStr ''FastAPI''), (''version'', JStr ''0.1.0''),
                        (''description'', JStr [])]),
      (''paths'', JDict [(''/items'', JDict [(''GET'', JStr ''read_items'')])])]"
    by (simp add: get_openapi_def add_operation_def path_item_def)
  show ?thesis
    using openapi_write_once [OF h, of "(''GET'', ''/openapi.json'')", THEN conjunct1] h f g
    by simp
qed

text \<open>
  C6, evaluated where the code departs from it.  A facade is constructed with the default
  arguments, and the endpoint \<^verbatim>\<open>GET /items\<close> is registered by \<^verbatim>\<open>add_route\<close> with
  \<^verbatim>\<open>include_in_schema=True\<close>.  The endpoint is in the router, and the first call of
  \<^verbatim>\<open>openapi\<close> answers with a document whose \<^verbatim>\<open>paths\<close> are empty: \<^verbatim>\<open>openapi\<close> hands
  \<^verbatim>\<open>self.routes\<close> to the generator, the list the constructor filled from the router
  before any later registration, and \<^verbatim>\<open>add_route\<close> appends to \<^verbatim>\<open>self.router\<close> only.
\<close>

theorem schema_misses_route_added_after_construction:
  "init default_args =
     Inr (with_routes (init_attributes default_args) (doc_routes (doc_urls default_args))) \<and>
   Endpoint ''/items'' [''GET''] ''read_items'' True \<in> set (router_routes (router
     (add_route (with_routes (init_attributes default_args) (doc_routes (doc_urls default_args)))
        ''/items'' ''read_items'' (Some [''GET'']) None True))) \<and>
   fst (openapi
     (add_route (with_routes (init_attributes default_args) (doc_routes (doc_urls default_args)))
        ''/items'' ''read_items'' (Some [''GET'']) None True) (''GET'', ''/openapi.json'')) =
     JSONResponse (JDict
       [(''info'', JDict [(''title'', JStr ''FastAPI''), (''version'', JStr ''0.1.0''),
                          (''description'', JStr [])]),
        (''paths'', JDict [])]) 200"
  by (simp add: init_default openapi_miss add_route_fields with_routes_keeps
      init_attributes_schema default_schema)

end
